theory Spec2Isabelle
  imports Main "HOL-Library.Word" "HOL-Library.Monad_Syntax"
begin

unbundle bit_operations_syntax

section \<open>Machine model\<close>

text \<open>
  \<open>size_t\<close> and pointers are 64-bit words: arithmetic wraps modulo \<open>2 ^ 64\<close>, the
  null pointer is \<open>0\<close>, and pointer comparison is unsigned comparison of addresses.

  Memory is a store from byte addresses to the \<open>size_t\<close> value held there. Both
  allocators read and write memory only through \<open>size_t\<close>-sized cells (a header word, or
  the three words of \<open>curr_header\<close> at offsets 0, 8 and 16), and every cell they touch
  sits at the region base plus a multiple of 8, so two accesses either hit the same cell or
  disjoint ones.  Accesses that would overlap partially (a misaligned pointer handed to
  \<open>myfree\<close>) are outside this store.

  \<open>MAX_REQUEST_SIZE\<close> comes from \<open>allocator.h\<close>, which is not part of the sources; it is
  a parameter of every function that uses it.  \<open>printf\<close> and \<open>breakpoint\<close> are
  diagnostics without effect on the state and are left out.
\<close>

type_synonym size_t = "64 word"
type_synonym addr = "64 word"
type_synonym memory = "addr \<Rightarrow> size_t"

text \<open>\<open>roundup\<close> is the same function in \<open>implicit.c\<close> and \<open>explicit.c\<close>.\<close>

definition roundup :: "size_t \<Rightarrow> size_t" where
  "roundup number = (number + 8 - 1) AND NOT (8 - 1)"

text \<open>
  \<open>memmove ptr old_ptr n\<close> on the word store copies \<open>n\<close> bytes: a cell of the destination
  at offset \<open>d\<close> (a multiple of 8 below \<open>n\<close>) receives the old contents of the source cell
  at the same offset when all its 8 bytes are below \<open>n\<close>; the last cell, when only
  \<open>n - d < 8\<close> of its bytes are copied, receives these bytes from the source and keeps its
  other bytes.  Bytes are little-endian within a cell (the first byte is the low-order
  one), as on the 64-bit targets the allocators are written for.  All reads see the old
  store, so overlapping ranges are harmless.
\<close>

definition memmove :: "memory \<Rightarrow> addr \<Rightarrow> addr \<Rightarrow> size_t \<Rightarrow> memory" where
  "memmove m dst src n =
     (\<lambda>a. let d = a - dst in
        if d < n \<and> d AND 7 = 0 then
          if 8 \<le> n - d then m (src + d)
          else (m (src + d) AND mask (8 * unat (n - d))) OR
               (m a AND NOT (mask (8 * unat (n - d))))
        else m a)"

text \<open>
  The outcome of a search loop: either the loop ran to its end (\<open>Miss\<close>, the function then
  returns \<open>NULL\<close>) or it stopped at a block that fits (\<open>Hit\<close> with the block's header
  address).  The loops are partial functions: \<open>None\<close> stands for a loop that never ends.
\<close>

datatype placement = Miss | Hit addr

section \<open>The implicit allocator (\<open>implicit.c\<close>)\<close>

record region =
  heapStart :: addr
  heapSize :: size_t
  sizeUsed :: size_t
  mem :: memory

text \<open>\<open>splitFunc\<close> returns the store and the out-parameter \<open>used\<close>.\<close>

definition splitFunc_imp :: "memory \<Rightarrow> size_t \<Rightarrow> addr \<Rightarrow> size_t \<Rightarrow> size_t \<Rightarrow> memory \<times> size_t" where
  "splitFunc_imp m used h payload requested_size =
     (if payload - requested_size \<ge> 16 then
        let split = h + (8 + requested_size);
            m1 = m(split := payload - (requested_size + 8));
            m2 = m1(h := requested_size)
        in (m2, 8 + requested_size)
      else (m, used))"

definition myinit_imp :: "region \<Rightarrow> addr \<Rightarrow> size_t \<Rightarrow> region \<times> bool" where
  "myinit_imp s heap_start heap_size =
     (if heap_start = 0 then (s, False)
      else (s\<lparr>heapStart := heap_start, heapSize := heap_size,
               mem := (mem s)(heap_start := heap_size - 8), sizeUsed := 0\<rparr>, True))"

text \<open>
  The block traversal shared by \<open>mymalloc\<close> and \<open>myrealloc\<close>:
  \<open>for (i = 0; i < heapSize; i += 8) { ...; i += payload; }\<close>, leaving the loop at the
  first free block with \<open>requested_size \<le> payload\<close>.
\<close>

partial_function (option) scan_imp :: "size_t \<Rightarrow> region \<Rightarrow> size_t \<Rightarrow> size_t \<Rightarrow> placement option" where
  "scan_imp MAX_REQUEST_SIZE s requested_size i =
     (if i < heapSize s then
        let header = heapStart s + i;
            payload = mem s header;
            state = mem s header AND 1
        in if state = 0 \<and> requested_size \<le> MAX_REQUEST_SIZE \<and> requested_size \<le> payload
           then Some (Hit header)
           else scan_imp MAX_REQUEST_SIZE s requested_size
                  (i + (if state = 1 then payload XOR 1 else payload) + 8)
      else Some Miss)"

text \<open>The body of \<open>mymalloc\<close>'s loop at the block that fits.\<close>

definition place_imp :: "region \<Rightarrow> addr \<Rightarrow> size_t \<Rightarrow> region \<times> addr" where
  "place_imp s header requested_size =
     (let payload = mem s header;
          used = 8 + payload;
          (m1, used1) = (if payload - requested_size \<ge> 16
                         then splitFunc_imp (mem s) used header payload requested_size
                         else (mem s, used));
          m2 = m1(header := m1 header XOR 1)
      in (s\<lparr>mem := m2, sizeUsed := sizeUsed s + used1\<rparr>, header + 8))"

definition mymalloc_imp :: "size_t \<Rightarrow> region \<Rightarrow> size_t \<Rightarrow> (region \<times> addr) option" where
  "mymalloc_imp MAX_REQUEST_SIZE s requested_size =
     (if requested_size = 0 then Some (s, 0)
      else let requested_size = roundup requested_size in
        if requested_size > MAX_REQUEST_SIZE \<or> requested_size + sizeUsed s > heapSize s
        then Some (s, 0)
        else do {
          found \<leftarrow> scan_imp MAX_REQUEST_SIZE s requested_size 0;
          case found of
            Miss \<Rightarrow> Some (s, 0)
          | Hit header \<Rightarrow> Some (place_imp s header requested_size)
        })"

definition myfree_imp :: "region \<Rightarrow> addr \<Rightarrow> region" where
  "myfree_imp s ptr =
     (if ptr \<noteq> 0 then
        let header = ptr - 8;
            m1 = (mem s)(header := mem s header XOR 1)
        in s\<lparr>mem := m1, sizeUsed := sizeUsed s - (m1 header + 8)\<rparr>
      else s)"

text \<open>The body of \<open>myrealloc\<close>'s loop at the block that fits.\<close>

definition move_imp :: "region \<Rightarrow> addr \<Rightarrow> size_t \<Rightarrow> addr \<Rightarrow> size_t \<Rightarrow> region \<times> addr" where
  "move_imp s old_ptr new_size header requested_size =
     (let payload = mem s header;
          used = 8 + payload;
          old_h = old_ptr - 8
      in if (mem s old_h XOR 1) > new_size then (s, old_ptr)
         else
           let m1 = (mem s)(old_h := mem s old_h XOR 1);
               su1 = sizeUsed s - (m1 old_h + 8);
               (m2, used2) = (if payload - requested_size \<ge> 16
                              then splitFunc_imp m1 used header payload requested_size
                              else (m1, used));
               m3 = m2(header := m2 header XOR 1);
               su2 = su1 + used2;
               ptr = header + 8;
               m4 = memmove m3 ptr old_ptr (m3 old_h)
           in (s\<lparr>mem := m4, sizeUsed := su2\<rparr>, ptr))"

definition myrealloc_imp :: "size_t \<Rightarrow> region \<Rightarrow> addr \<Rightarrow> size_t \<Rightarrow> (region \<times> addr) option" where
  "myrealloc_imp MAX_REQUEST_SIZE s old_ptr new_size =
     (if new_size = 0 \<and> old_ptr \<noteq> 0 then Some (myfree_imp s old_ptr, old_ptr)
      else let requested_size = roundup new_size in
        if requested_size > MAX_REQUEST_SIZE \<or> requested_size + sizeUsed s > heapSize s
        then Some (s, 0)
        else if old_ptr = 0 then mymalloc_imp MAX_REQUEST_SIZE s new_size
        else do {
          found \<leftarrow> scan_imp MAX_REQUEST_SIZE s requested_size 0;
          case found of
            Miss \<Rightarrow> Some (s, 0)
          | Hit header \<Rightarrow> Some (move_imp s old_ptr new_size header requested_size)
        })"

section \<open>The explicit allocator (\<open>explicit.c\<close>)\<close>

record heap = region +
  freeEnd :: addr
  freeSpace :: size_t

record curr_header =
  hdr_h :: size_t
  hdr_prev :: addr
  hdr_next :: addr

text \<open>Reading and writing a whole \<open>curr_header\<close> through a pointer.\<close>

definition load_hdr :: "memory \<Rightarrow> addr \<Rightarrow> curr_header" where
  "load_hdr m a = \<lparr>hdr_h = m a, hdr_prev = m (a + 8), hdr_next = m (a + 16)\<rparr>"

definition store_hdr :: "memory \<Rightarrow> addr \<Rightarrow> curr_header \<Rightarrow> memory" where
  "store_hdr m a x = m(a := hdr_h x, a + 8 := hdr_prev x, a + 16 := hdr_next x)"

text \<open>\<open>splitFunc\<close> returns the state and the out-parameters \<open>used\<close> and \<open>payload\<close>.\<close>

definition splitFunc_exp :: "heap \<Rightarrow> addr \<Rightarrow> size_t \<Rightarrow> size_t \<Rightarrow> heap \<times> size_t \<times> size_t" where
  "splitFunc_exp s currentFree payload requested_size =
     (let mystruct = load_hdr (mem s) currentFree;
          split_address = currentFree + 16 + requested_size;
          split = \<lparr>hdr_h = payload - (requested_size + 16),
                   hdr_prev = hdr_prev mystruct, hdr_next = hdr_next mystruct\<rparr>;
          m1 = store_hdr (mem s) split_address split;
          used = 16 + requested_size;
          payload1 = requested_size;
          m2 = (if hdr_next mystruct \<noteq> 0
                then store_hdr m1 (hdr_next mystruct)
                       ((load_hdr m1 (hdr_next mystruct))\<lparr>hdr_prev := split_address\<rparr>)
                else m1)
      in if hdr_prev mystruct \<noteq> 0
         then (s\<lparr>mem := store_hdr m2 (hdr_prev mystruct)
                           ((load_hdr m2 (hdr_prev mystruct))\<lparr>hdr_next := split_address\<rparr>)\<rparr>,
               used, payload1)
         else (s\<lparr>mem := m2, freeEnd := split_address\<rparr>, used, payload1))"

text \<open>\<open>cantSplit\<close> returns the state and the out-parameter \<open>used\<close>.\<close>

definition cantSplit :: "heap \<Rightarrow> addr \<Rightarrow> size_t \<Rightarrow> heap \<times> size_t" where
  "cantSplit s currentFree payload =
     (let mystruct = load_hdr (mem s) currentFree;
          used = 16 + payload;
          s1 = (if hdr_prev mystruct \<noteq> 0
                then s\<lparr>mem := store_hdr (mem s) (hdr_prev mystruct)
                                ((load_hdr (mem s) (hdr_prev mystruct))\<lparr>hdr_next := hdr_next mystruct\<rparr>)\<rparr>
                else s\<lparr>freeEnd := hdr_next mystruct\<rparr>);
          s2 = (if hdr_next mystruct \<noteq> 0
                then s1\<lparr>mem := store_hdr (mem s1) (hdr_next mystruct)
                                 ((load_hdr (mem s1) (hdr_next mystruct))\<lparr>hdr_prev := hdr_prev mystruct\<rparr>)\<rparr>
                else if hdr_prev mystruct \<noteq> 0 then s1\<lparr>freeEnd := hdr_prev mystruct\<rparr>
                else s1\<lparr>freeEnd := 0\<rparr>)
      in (s2, used))"

definition myinit_exp :: "heap \<Rightarrow> addr \<Rightarrow> size_t \<Rightarrow> heap \<times> bool" where
  "myinit_exp s heap_start heap_size =
     (if heap_start = 0 then (s, False)
      else
        let mystruct = \<lparr>hdr_h = heap_size - 16, hdr_prev = 0, hdr_next = 0\<rparr>
        in (s\<lparr>heapStart := heap_start, heapSize := heap_size, freeSpace := heap_size,
                freeEnd := heap_start, sizeUsed := 0,
                mem := store_hdr (mem s) heap_start mystruct\<rparr>, True))"

text \<open>
  The free-list traversal shared by \<open>mymalloc\<close> and \<open>myrealloc\<close>:
  \<open>while (space > 0) { if (currentFree == NULL) break; ...; space -= 16 + payload;
  currentFree = mystruct.next; }\<close>, leaving the loop at the first node with a clear status
  bit and \<open>requested_size \<le> payload\<close>.
\<close>

partial_function (option) find_free :: "size_t \<Rightarrow> memory \<Rightarrow> size_t \<Rightarrow> size_t \<Rightarrow> addr \<Rightarrow> placement option" where
  "find_free MAX_REQUEST_SIZE m requested_size space currentFree =
     (if space > 0 then
        if currentFree = 0 then Some Miss
        else
          let mystruct = load_hdr m currentFree;
              h = hdr_h mystruct;
              payload = h;
              state = h AND 1
          in if state = 0 \<and> requested_size \<le> MAX_REQUEST_SIZE \<and> requested_size \<le> payload
             then Some (Hit currentFree)
             else find_free MAX_REQUEST_SIZE m requested_size (space - (16 + payload)) (hdr_next mystruct)
      else Some Miss)"

text \<open>
  The body of the loop at the node that fits, up to the computation of the payload
  pointer; \<open>mystruct\<close> is the copy of the header taken before the list is changed.
\<close>

definition place_exp :: "heap \<Rightarrow> addr \<Rightarrow> size_t \<Rightarrow> heap \<times> addr" where
  "place_exp s currentFree requested_size =
     (let mystruct = load_hdr (mem s) currentFree;
          payload = hdr_h mystruct;
          (s1, used, payload1) =
             (if payload - requested_size > 24
              then splitFunc_exp s currentFree payload requested_size
              else (let (s', used') = cantSplit s currentFree payload in (s', used', payload)));
          s2 = s1\<lparr>sizeUsed := sizeUsed s1 + used, freeSpace := freeSpace s1 - used\<rparr>;
          mystruct1 = (if payload1 AND 1 = 0 then mystruct\<lparr>hdr_h := payload1 XOR 1\<rparr> else mystruct);
          s3 = s2\<lparr>mem := store_hdr (mem s2) currentFree mystruct1\<rparr>
      in (s3, currentFree + 16))"

definition mymalloc_exp :: "size_t \<Rightarrow> heap \<Rightarrow> size_t \<Rightarrow> (heap \<times> addr) option" where
  "mymalloc_exp MAX_REQUEST_SIZE s requested_size =
     (if requested_size = 0 then Some (s, 0)
      else let requested_size = roundup requested_size in
        if requested_size > MAX_REQUEST_SIZE \<or> requested_size + sizeUsed s > heapSize s
        then Some (s, 0)
        else do {
          found \<leftarrow> find_free MAX_REQUEST_SIZE (mem s) requested_size (freeSpace s) (freeEnd s);
          case found of
            Miss \<Rightarrow> Some (s, 0)
          | Hit currentFree \<Rightarrow> Some (place_exp s currentFree requested_size)
        })"

definition myfree_exp :: "heap \<Rightarrow> addr \<Rightarrow> heap" where
  "myfree_exp s ptr =
     (if ptr \<noteq> 0 then
        let header = ptr - 16;
            mystruct = load_hdr (mem s) header;
            payload = hdr_h mystruct XOR 1;
            s1 = s\<lparr>sizeUsed := sizeUsed s - (payload + 16),
                   freeSpace := freeSpace s + (payload + 16)\<rparr>;
            nextAddress = ptr + payload
        in if nextAddress < heapStart s + heapSize s then
             let next_header = load_hdr (mem s1) nextAddress;
                 next_payload = hdr_h next_header
             in if next_payload AND 1 = 0 then
                  let newPayload = payload + (16 + next_payload);
                      mystruct1 = \<lparr>hdr_h = newPayload, hdr_prev = hdr_prev next_header,
                                   hdr_next = hdr_next next_header\<rparr>;
                      m1 = store_hdr (mem s1) header mystruct1;
                      m2 = (if hdr_prev next_header \<noteq> 0
                            then store_hdr m1 (hdr_prev next_header)
                                   ((load_hdr m1 (hdr_prev next_header))\<lparr>hdr_next := header\<rparr>)
                            else m1);
                      m3 = (if hdr_next next_header \<noteq> 0
                            then store_hdr m2 (hdr_next next_header)
                                   ((load_hdr m2 (hdr_next next_header))\<lparr>hdr_prev := header\<rparr>)
                            else m2)
                  in if hdr_prev next_header = 0 then s1\<lparr>mem := m3, freeEnd := header\<rparr>
                     else s1\<lparr>mem := m3\<rparr>
                else s1
           else
             let mystruct1 = \<lparr>hdr_h = payload, hdr_prev = 0, hdr_next = freeEnd s1\<rparr>;
                 m1 = (if freeEnd s1 \<noteq> 0
                       then store_hdr (mem s1) (freeEnd s1)
                              ((load_hdr (mem s1) (freeEnd s1))\<lparr>hdr_prev := header\<rparr>)
                       else mem s1);
                 m2 = store_hdr m1 header mystruct1
             in s1\<lparr>mem := m2, freeEnd := header\<rparr>
      else s)"

definition myrealloc_exp :: "size_t \<Rightarrow> heap \<Rightarrow> addr \<Rightarrow> size_t \<Rightarrow> (heap \<times> addr) option" where
  "myrealloc_exp MAX_REQUEST_SIZE s old_ptr new_size =
     (if new_size = 0 \<and> old_ptr \<noteq> 0 then Some (myfree_exp s old_ptr, old_ptr)
      else let requested_size = roundup new_size in
        if requested_size > MAX_REQUEST_SIZE \<or> requested_size + sizeUsed s > heapSize s
        then Some (s, 0)
        else if old_ptr = 0 then mymalloc_exp MAX_REQUEST_SIZE s new_size
        else
          let old_pointer = old_ptr - 16;
              old_header = load_hdr (mem s) old_pointer;
              old_payload = hdr_h old_header XOR 1
          in if requested_size \<le> old_payload then Some (s, old_ptr)
             else do {
               found \<leftarrow> find_free MAX_REQUEST_SIZE (mem s) requested_size (freeSpace s) (freeEnd s);
               case found of
                 Miss \<Rightarrow> Some (s, 0)
               | Hit currentFree \<Rightarrow>
                   (let (s3, ptr) = place_exp s currentFree requested_size;
                        s4 = s3\<lparr>mem := memmove (mem s3) ptr old_ptr old_payload\<rparr>
                    in Some (myfree_exp s4 old_ptr, ptr))
             })"

text \<open>
  \<open>validate_heap\<close>: the block sweep
  \<open>for (i = 0; i < heapSize; i += 16) { ...; i += payload; }\<close> returns the totals
  \<open>(used, frees)\<close>; the free-list walk returns \<open>None\<close> where the C code returns
  \<open>false\<close> from inside the loop, and the total \<open>freed\<close> otherwise.
\<close>

partial_function (option) sweep_exp :: "heap \<Rightarrow> size_t \<Rightarrow> size_t \<Rightarrow> size_t \<Rightarrow> (size_t \<times> size_t) option" where
  "sweep_exp s i used frees =
     (if i < heapSize s then
        let mystruct = load_hdr (mem s) (heapStart s + i);
            state = hdr_h mystruct AND 1;
            payload = hdr_h mystruct
        in if state = 1 then
             (let payload = hdr_h mystruct XOR 1
              in sweep_exp s (i + payload + 16) (used + (16 + payload)) frees)
           else if state = 0 then
             sweep_exp s (i + payload + 16) used (frees + (16 + payload))
           else sweep_exp s (i + payload + 16) used frees
      else Some (used, frees))"

partial_function (option) walk_exp :: "memory \<Rightarrow> addr \<Rightarrow> size_t \<Rightarrow> size_t option option" where
  "walk_exp m current freed =
     (if current \<noteq> 0 then
        let freeStructs = load_hdr m current;
            freePayload = hdr_h freeStructs
        in if freePayload AND 1 = 1 then Some None
           else walk_exp m (hdr_next freeStructs) (freed + (freePayload + 16))
      else Some (Some freed))"

definition validate_heap_exp :: "heap \<Rightarrow> bool option" where
  "validate_heap_exp s =
     (if sizeUsed s > heapSize s then Some False
      else do {
        (used, frees) \<leftarrow> sweep_exp s 0 0 0;
        w \<leftarrow> walk_exp (mem s) (freeEnd s) 0;
        case w of
          None \<Rightarrow> Some False
        | Some freed \<Rightarrow>
            if frees + used \<noteq> heapSize s then Some False
            else if freeSpace s + sizeUsed s \<noteq> heapSize s then Some False
            else Some True
      })"


section \<open>Notions used in the statements\<close>

text \<open>
  The counters of the explicit region descriptor agree, in \<open>size_t\<close> arithmetic, as
  \<open>validate_heap\<close> checks it: \<open>(freeSpace + sizeUsed) != heapSize\<close> must be false.
\<close>

definition counters_ok :: "heap \<Rightarrow> bool" where
  "counters_ok s \<longleftrightarrow> sizeUsed s + freeSpace s = heapSize s"

text \<open>The bytes \<open>place_exp\<close> accounts for the block it hands out.\<close>

definition place_used :: "heap \<Rightarrow> addr \<Rightarrow> size_t \<Rightarrow> size_t" where
  "place_used s b r = (if mem s b - r > 24 then 16 + r else 16 + mem s b)"

text \<open>
  The payload size a header word stands for, as the implicit traversal computes it: the
  status bit is cleared when it is set.
\<close>

definition block_payload :: "size_t \<Rightarrow> size_t" where
  "block_payload h = (if h AND 1 = 1 then h XOR 1 else h)"

text \<open>
  Coverage (implicit layout): \<open>tiled s i bs\<close> says that \<open>bs\<close> are the header addresses of
  consecutive blocks from offset \<open>i\<close>, each block \<open>8 + payload\<close> bytes long, and that the
  last block ends exactly at \<open>heapSize\<close>.  Offsets are natural numbers, so nothing wraps.
\<close>

fun tiled :: "region \<Rightarrow> nat \<Rightarrow> addr list \<Rightarrow> bool" where
  "tiled s i [] = (i = unat (heapSize s))"
| "tiled s i (b # bs) =
     (i < unat (heapSize s) \<and> b = heapStart s + of_nat i \<and>
      tiled s (i + 8 + unat (block_payload (mem s b))) bs)"

text \<open>
  The explicit free list: \<open>free_list m a xs\<close> says that following the \<open>next\<close> links
  (the word at offset 16) from \<open>a\<close> visits exactly the nodes \<open>xs\<close> and then reaches null.
  \<open>list_bytes\<close> is the total \<open>16 + payload\<close> of the nodes, as a natural number.
\<close>

fun free_list :: "memory \<Rightarrow> addr \<Rightarrow> addr list \<Rightarrow> bool" where
  "free_list m a [] = (a = 0)"
| "free_list m a (x # xs) = (a \<noteq> 0 \<and> x = a \<and> free_list m (m (a + 16)) xs)"

definition list_bytes :: "memory \<Rightarrow> addr list \<Rightarrow> nat" where
  "list_bytes m xs = sum_list (map (\<lambda>x. 16 + unat (m x)) xs)"

text \<open>
  The region has a non-null base and ends below the top of the address space; a list node
  lies in the region when its first two header words do.
\<close>

definition region_ok :: "'a region_scheme \<Rightarrow> bool" where
  "region_ok s \<longleftrightarrow> heapStart s \<noteq> 0 \<and> unat (heapStart s) + unat (heapSize s) < 2 ^ 64"

definition in_region :: "'a region_scheme \<Rightarrow> addr \<Rightarrow> bool" where
  "in_region s x \<longleftrightarrow>
     unat (heapStart s) \<le> unat x \<and> unat x + 16 \<le> unat (heapStart s) + unat (heapSize s)"

text \<open>
  The test both search loops apply to a header word \<open>h\<close>, and the first block of a list
  that passes it.
\<close>

definition fits :: "size_t \<Rightarrow> size_t \<Rightarrow> size_t \<Rightarrow> bool" where
  "fits M r h \<longleftrightarrow> h AND 1 = 0 \<and> r \<le> M \<and> r \<le> h"

definition first_fit :: "size_t \<Rightarrow> size_t \<Rightarrow> memory \<Rightarrow> addr list \<Rightarrow> placement" where
  "first_fit M r m bs =
     (case List.find (\<lambda>b. fits M r (m b)) bs of None \<Rightarrow> Miss | Some b \<Rightarrow> Hit b)"

subsection \<open>Concrete runs\<close>

text \<open>
  The state before \<open>myinit\<close>: zeroed globals (static storage) over a zeroed memory.
  The runs below use a 4096-byte region at address \<open>0x1000\<close> and
  \<open>MAX_REQUEST_SIZE = 1 << 30\<close>.
\<close>

definition blank_imp :: region where
  "blank_imp = \<lparr>heapStart = 0, heapSize = 0, sizeUsed = 0, mem = (\<lambda>_. 0)\<rparr>"

definition blank_exp :: heap where
  "blank_exp = \<lparr>heapStart = 0, heapSize = 0, sizeUsed = 0, mem = (\<lambda>_. 0),
                 freeEnd = 0, freeSpace = 0\<rparr>"

definition max_req :: size_t where
  "max_req = 0x40000000"

text \<open>Implicit: \<open>myinit(0x1000, 4096)\<close>, then \<open>mymalloc(16)\<close>, which returns \<open>0x1008\<close>.\<close>

definition i0 :: region where
  "i0 = fst (myinit_imp blank_imp 0x1000 4096)"

definition i1 :: region where
  "i1 = fst (place_imp i0 0x1000 16)"

text \<open>
  Explicit: \<open>myinit(0x1000, 4096)\<close>; \<open>A = mymalloc(16)\<close>, which is \<open>0x1010\<close>;
  \<open>B = mymalloc(16)\<close>, which is \<open>0x1030\<close>; then \<open>myfree(A)\<close>.
\<close>

definition e0 :: heap where
  "e0 = fst (myinit_exp blank_exp 0x1000 4096)"

definition e1 :: heap where
  "e1 = fst (place_exp e0 0x1000 16)"

definition e2 :: heap where
  "e2 = fst (place_exp e1 0x1020 16)"

definition e3 :: heap where
  "e3 = myfree_exp e2 0x1010"

text \<open>
  From \<open>e2\<close>, \<open>myrealloc(A, 64)\<close> places the new block at \<open>0x1040\<close>, copies the 16 old
  payload bytes and frees \<open>A\<close>; it returns \<open>0x1050\<close>.
\<close>

definition e4 :: heap where
  "e4 = myfree_exp
          ((fst (place_exp e2 0x1040 64))
             \<lparr>mem := memmove (mem (fst (place_exp e2 0x1040 64))) 0x1050 0x1010 16\<rparr>)
          0x1010"

text \<open>Requests that take the whole initial block (no split): 4080 (explicit), 4088 (implicit).\<close>

definition e_full :: heap where
  "e_full = fst (place_exp e0 0x1000 4080)"

definition i_full :: region where
  "i_full = fst (place_imp i0 0x1000 4088)"

text \<open>
  Implicit, a 64-byte region at \<open>0x1000\<close>: \<open>myinit(0x1000, 64)\<close>, then \<open>mymalloc(32)\<close>,
  which returns \<open>0x1008\<close> and leaves one free block of payload 16 at \<open>0x1028\<close>.
\<close>

definition k0 :: region where
  "k0 = fst (myinit_imp blank_imp 0x1000 64)"

definition k1 :: region where
  "k1 = fst (place_imp k0 0x1000 32)"

text \<open>
  Implicit, from \<open>i0\<close>: \<open>a = mymalloc(8)\<close>, which is \<open>0x1008\<close>; \<open>b = mymalloc(8)\<close>, which
  is \<open>0x1018\<close>; \<open>myfree(a)\<close>; then \<open>mymalloc(SIZE_MAX)\<close>, which takes the freed 8-byte
  block at \<open>0x1000\<close> whole.
\<close>

definition j1 :: region where
  "j1 = fst (place_imp i0 0x1000 8)"

definition j2 :: region where
  "j2 = fst (place_imp j1 0x1010 8)"

definition j3 :: region where
  "j3 = myfree_imp j2 0x1008"

definition j4 :: region where
  "j4 = fst (place_imp j3 0x1000 0)"

section \<open>Basic facts\<close>

declare scan_imp.simps [code] find_free.simps [code] sweep_exp.simps [code] walk_exp.simps [code]

lemma roundup_0: "roundup 0 = 0"
  by (simp add: roundup_def)

lemma roundup_even: "roundup r AND 1 = 0"
proof -
  have "(- 8 :: 64 word) AND 1 = 0" by simp
  then show ?thesis by (simp add: roundup_def and.assoc)
qed

lemma find_free_Hit_aux:
  assumes "find_free M m r space cur = Some y"
  shows "case y of Miss \<Rightarrow> True | Hit b \<Rightarrow> m b AND 1 = 0 \<and> r \<le> M \<and> r \<le> m b \<and> b \<noteq> 0"
proof (rule find_free.raw_induct[where P = "\<lambda>M m r space cur y.
          case y of Miss \<Rightarrow> True | Hit b \<Rightarrow> m b AND 1 = 0 \<and> r \<le> M \<and> r \<le> m b \<and> b \<noteq> 0", OF _ assms], goal_cases)
  case (1 ff M m r space cur y)
  then show ?case
    by (auto simp: Let_def load_hdr_def split: if_splits)
qed

lemma find_free_Hit:
  "find_free M m r space cur = Some (Hit b) \<Longrightarrow> m b AND 1 = 0 \<and> r \<le> M \<and> r \<le> m b \<and> b \<noteq> 0"
  using find_free_Hit_aux[of M m r space cur "Hit b"] by simp

lemma xor1_twice: "(x XOR 1) XOR 1 = (x :: size_t)"
  by (simp add: xor.assoc)

lemma place_imp_free_used:
  "sizeUsed (myfree_imp (fst (place_imp s header r)) (header + 8)) = sizeUsed s" if "header + 8 \<noteq> 0"
  using that by (simp add: myfree_imp_def place_imp_def splitFunc_imp_def Let_def split_beta xor1_twice)

lemma snd_place_imp: "snd (place_imp s header r) = header + 8"
  by (simp add: place_imp_def Let_def split_beta)

lemma snd_place_exp: "snd (place_exp s b r) = b + 16"
  by (simp add: place_exp_def Let_def split_beta)

lemma place_imp_eqD:
  "place_imp s header r = (s', p) \<Longrightarrow> s' = fst (place_imp s header r) \<and> p = header + 8"
  using snd_place_imp[of s header r] by simp

lemma place_exp_eqD:
  "place_exp s b r = (s', p) \<Longrightarrow> s' = fst (place_exp s b r) \<and> p = b + 16"
  using snd_place_exp[of s b r] by simp

lemma mymalloc_imp_cases:
  assumes "mymalloc_imp M s r = Some (s', p)"
  shows "(s' = s \<and> p = 0) \<or>
         (\<exists>header. scan_imp M s (roundup r) 0 = Some (Hit header) \<and>
             s' = fst (place_imp s header (roundup r)) \<and> p = header + 8)"
  using assms
  by (auto simp: mymalloc_imp_def Let_def split: if_splits placement.splits bind_splits
           dest!: place_imp_eqD)

lemma mymalloc_exp_cases:
  assumes "mymalloc_exp M s r = Some (s', p)"
  shows "(s' = s \<and> p = 0) \<or>
         (\<exists>b. find_free M (mem s) (roundup r) (freeSpace s) (freeEnd s) = Some (Hit b) \<and>
             s' = fst (place_exp s b (roundup r)) \<and> p = b + 16)"
  using assms
  by (auto simp: mymalloc_exp_def Let_def split: if_splits placement.splits bind_splits
           dest!: place_exp_eqD)

lemma splitFunc_exp_counters:
  "sizeUsed (fst (splitFunc_exp s b p r)) = sizeUsed s"
  "freeSpace (fst (splitFunc_exp s b p r)) = freeSpace s"
  "heapSize (fst (splitFunc_exp s b p r)) = heapSize s"
  "heapStart (fst (splitFunc_exp s b p r)) = heapStart s"
  "fst (snd (splitFunc_exp s b p r)) = 16 + r"
  "snd (snd (splitFunc_exp s b p r)) = r"
  by (simp_all add: splitFunc_exp_def Let_def)

lemma cantSplit_counters:
  "sizeUsed (fst (cantSplit s b p)) = sizeUsed s"
  "freeSpace (fst (cantSplit s b p)) = freeSpace s"
  "heapSize (fst (cantSplit s b p)) = heapSize s"
  "heapStart (fst (cantSplit s b p)) = heapStart s"
  "snd (cantSplit s b p) = 16 + p"
  by (simp_all add: cantSplit_def Let_def)

lemma place_exp_counters:
  "sizeUsed (fst (place_exp s b r)) = sizeUsed s + place_used s b r"
  "freeSpace (fst (place_exp s b r)) = freeSpace s - place_used s b r"
  "heapSize (fst (place_exp s b r)) = heapSize s"
  "heapStart (fst (place_exp s b r)) = heapStart s"
  by (simp_all add: place_exp_def place_used_def Let_def split_beta splitFunc_exp_counters cantSplit_counters load_hdr_def)

lemma place_exp_header:
  "mem s b AND 1 = 0 \<Longrightarrow>
   mem (fst (place_exp s b (roundup r'))) b = (if mem s b - roundup r' > 24 then roundup r' else mem s b) XOR 1"
  by (simp add: place_exp_def Let_def split_beta splitFunc_exp_counters cantSplit_counters load_hdr_def store_hdr_def roundup_even)

lemma myfree_exp_counters:
  "ptr \<noteq> 0 \<Longrightarrow> sizeUsed (myfree_exp s ptr) = sizeUsed s - ((mem s (ptr - 16) XOR 1) + 16)"
  "ptr \<noteq> 0 \<Longrightarrow> freeSpace (myfree_exp s ptr) = freeSpace s + ((mem s (ptr - 16) XOR 1) + 16)"
  "heapSize (myfree_exp s ptr) = heapSize s"
  "heapStart (myfree_exp s ptr) = heapStart s"
  by (simp_all add: myfree_exp_def Let_def load_hdr_def)

text \<open>
  \<open>myfree\<close> (explicit) on a block whose right neighbour lies inside the region and has its
  status bit set: only the two counters change.
\<close>

lemma myfree_exp_allocated_neighbour:
  assumes "ptr \<noteq> 0"
    and "ptr + (mem s (ptr - 16) XOR 1) < heapStart s + heapSize s"
    and "mem s (ptr + (mem s (ptr - 16) XOR 1)) AND 1 \<noteq> 0"
  shows "myfree_exp s ptr =
           s\<lparr>sizeUsed := sizeUsed s - ((mem s (ptr - 16) XOR 1) + 16),
              freeSpace := freeSpace s + ((mem s (ptr - 16) XOR 1) + 16)\<rparr>"
  using assms by (simp add: myfree_exp_def load_hdr_def Let_def)

lemma place_exp_free_used:
  assumes "mem s b AND 1 = 0" "b + 16 \<noteq> 0"
  shows "sizeUsed (myfree_exp (fst (place_exp s b (roundup r))) (b + 16)) = sizeUsed s"
  using assms
  by (simp add: myfree_exp_counters place_exp_counters place_exp_header place_used_def xor1_twice)

lemma counters_ok_place: "counters_ok s \<Longrightarrow> counters_ok (fst (place_exp s b r))"
  by (simp add: counters_ok_def place_exp_counters)

lemma counters_ok_free: "counters_ok s \<Longrightarrow> counters_ok (myfree_exp s ptr)"
  by (cases "ptr = 0") (simp_all add: counters_ok_def myfree_exp_counters, simp add: myfree_exp_def)

lemma counters_ok_mem_upd: "counters_ok (s\<lparr>mem := m\<rparr>) = counters_ok s"
  by (simp add: counters_ok_def)

lemma counters_ok_init: "counters_ok (fst (myinit_exp s heap_start heap_size))" if "heap_start \<noteq> 0"
  using that by (simp add: counters_ok_def myinit_exp_def)

lemma counters_ok_malloc:
  assumes "counters_ok s" "mymalloc_exp M s r = Some (s', p)"
  shows "counters_ok s'"
  using mymalloc_exp_cases[OF assms(2)] assms(1) by (auto simp: counters_ok_place)

lemma counters_ok_realloc:
  assumes "counters_ok s" "myrealloc_exp M s old_ptr new_size = Some (s', p)"
  shows "counters_ok s'"
  using assms
  by (auto simp: myrealloc_exp_def Let_def counters_ok_free counters_ok_malloc counters_ok_mem_upd counters_ok_place
           split: if_splits placement.splits bind_splits prod.splits dest!: place_exp_eqD)



section \<open>The search loops on a well-formed heap\<close>

lemma first_fit_simps:
  "first_fit M r m [] = Miss"
  "first_fit M r m (b # bs) = (if fits M r (m b) then Hit b else first_fit M r m bs)"
  by (simp_all add: first_fit_def)

lemma word_of_nat_less_heapSize:
  "i < unat (w :: size_t) \<Longrightarrow> (of_nat i :: size_t) < w"
  by (simp add: word_less_nat_alt unat_of_nat)

lemma scan_imp_tiled:
  "tiled s i bs \<Longrightarrow> scan_imp M s r (of_nat i) = Some (first_fit M r (mem s) bs)"
proof (induction bs arbitrary: i)
  case Nil
  then show ?case
    by (subst scan_imp.simps) (simp add: first_fit_simps)
next
  case (Cons b bs)
  then have lt: "(of_nat i :: size_t) < heapSize s" and b: "b = heapStart s + of_nat i"
    and t: "tiled s (i + 8 + unat (block_payload (mem s b))) bs"
    by (auto simp: word_of_nat_less_heapSize)
  have step: "(of_nat (i + 8 + unat (block_payload (mem s b))) :: size_t)
                = of_nat i + block_payload (mem s b) + 8"
    by simp
  from Cons.IH[OF t]
  have ih: "scan_imp M s r (of_nat i + block_payload (mem s b) + 8) = Some (first_fit M r (mem s) bs)"
    by (simp only: step)
  show ?case
    using lt ih
    by (subst scan_imp.simps) (auto simp: first_fit_simps fits_def b [symmetric] block_payload_def Let_def)
qed

lemma find_free_list:
  "free_list m a xs \<Longrightarrow> list_bytes m xs \<le> unat space \<Longrightarrow>
     find_free M m r space a = Some (first_fit M r m xs)"
proof (induction xs arbitrary: a space)
  case Nil
  then show ?case
    by (subst find_free.simps) (simp add: first_fit_simps)
next
  case (Cons x xs)
  then have a: "a = x" "x \<noteq> 0" and fl: "free_list m (m (x + 16)) xs"
    and le: "16 + unat (m x) + list_bytes m xs \<le> unat space"
    by (simp_all add: list_bytes_def)
  have "unat space < 2 ^ LENGTH(64)"
    by (rule unsigned_less)
  with le have lt64: "unat (16 :: size_t) + unat (m x) < 2 ^ LENGTH(64)"
    by simp
  then have u: "unat (16 + m x) = 16 + unat (m x)"
    by (simp add: unat_add_lem [THEN iffD1])
  have le': "16 + m x \<le> space"
    using le by (simp add: word_le_nat_alt u)
  have sp: "0 < space"
    using le by (simp add: word_less_nat_alt)
  have "list_bytes m xs \<le> unat (space - (16 + m x))"
    using le by (simp add: unat_sub [OF le'] u)
  from Cons.IH[OF fl this] sp a show ?case
    by (subst find_free.simps) (simp add: first_fit_simps fits_def load_hdr_def Let_def)
qed

lemma first_fit_Miss_iff:
  "first_fit M r m bs = Miss \<longleftrightarrow> \<not> (\<exists>b \<in> set bs. fits M r (m b))"
  by (induction bs) (auto simp: first_fit_simps)

lemma first_fit_Hit:
  "first_fit M r m bs = Hit b \<Longrightarrow> b \<in> set bs \<and> fits M r (m b)"
  by (induction bs) (auto simp: first_fit_simps split: if_splits)

lemma first_fit_cases:
  obtains "first_fit M r m bs = Miss" "\<not> (\<exists>b \<in> set bs. fits M r (m b))"
  | b where "first_fit M r m bs = Hit b" "b \<in> set bs" "fits M r (m b)"
  by (cases "first_fit M r m bs") (auto simp: first_fit_Miss_iff dest: first_fit_Hit)

lemma tiled_le: "tiled s k bs \<Longrightarrow> k \<le> unat (heapSize s)"
  by (cases bs) auto

lemma tiled_block_bound:
  "tiled s i bs \<Longrightarrow> b \<in> set bs \<Longrightarrow> \<exists>j. j + 8 \<le> unat (heapSize s) \<and> b = heapStart s + of_nat j"
proof (induction bs arbitrary: i)
  case Nil
  then show ?case by simp
next
  case (Cons b' bs)
  from Cons.prems(1) have t: "tiled s (i + 8 + unat (block_payload (mem s b'))) bs"
    and b': "b' = heapStart s + of_nat i"
    by auto
  show ?case
  proof (cases "b = b'")
    case True
    from tiled_le[OF t] have "i + 8 \<le> unat (heapSize s)" by simp
    with True b' show ?thesis by blast
  next
    case False
    with Cons.prems(2) have "b \<in> set bs" by simp
    from Cons.IH[OF t this] show ?thesis .
  qed
qed

lemma word_of_nat_nonzero:
  "0 < n \<Longrightarrow> n < 2 ^ 64 \<Longrightarrow> (of_nat n :: size_t) \<noteq> 0"
proof
  assume n: "0 < n" "n < 2 ^ 64" and z: "(of_nat n :: size_t) = 0"
  have "unat (of_nat n :: size_t) = n"
    using n by (simp add: unat_of_nat)
  with z n show False by simp
qed

lemma region_ok_block_nonnull:
  assumes "region_ok s" "j + 8 \<le> unat (heapSize s)"
  shows "heapStart s + of_nat j + 8 \<noteq> 0"
proof -
  have "heapStart s + of_nat j + 8 = (of_nat (unat (heapStart s) + j + 8) :: size_t)"
    by simp
  moreover have "unat (heapStart s) + j + 8 < 2 ^ 64"
    using assms by (simp add: region_ok_def)
  ultimately show ?thesis
    using word_of_nat_nonzero[of "unat (heapStart s) + j + 8"] by simp
qed

lemma tiled_payload_ptr_nonnull:
  "tiled s 0 bs \<Longrightarrow> region_ok s \<Longrightarrow> b \<in> set bs \<Longrightarrow> b + 8 \<noteq> 0"
  using tiled_block_bound[of s 0 bs b] region_ok_block_nonnull[of s] by auto

lemma in_region_payload_ptr_nonnull:
  assumes "region_ok s" "in_region s x"
  shows "x + 16 \<noteq> 0"
proof -
  have "x + 16 = (of_nat (unat x + 16) :: size_t)"
    by simp
  moreover have "unat x + 16 < 2 ^ 64"
    using assms by (simp add: region_ok_def in_region_def)
  ultimately show ?thesis
    using word_of_nat_nonzero[of "unat x + 16"] by simp
qed

lemma mymalloc_imp_tiled:
  assumes "tiled s 0 bs"
  shows "mymalloc_imp M s r =
           Some (if r = 0 \<or> roundup r > M \<or> roundup r + sizeUsed s > heapSize s then (s, 0)
                 else case first_fit M (roundup r) (mem s) bs of
                        Miss \<Rightarrow> (s, 0)
                      | Hit header \<Rightarrow> place_imp s header (roundup r))"
  using scan_imp_tiled[OF assms, of M "roundup r"]
  by (simp add: mymalloc_imp_def Let_def split: placement.splits)

lemma mymalloc_exp_free_list:
  assumes "free_list (mem s) (freeEnd s) xs" "list_bytes (mem s) xs \<le> unat (freeSpace s)"
  shows "mymalloc_exp M s r =
           Some (if r = 0 \<or> roundup r > M \<or> roundup r + sizeUsed s > heapSize s then (s, 0)
                 else case first_fit M (roundup r) (mem s) xs of
                        Miss \<Rightarrow> (s, 0)
                      | Hit currentFree \<Rightarrow> place_exp s currentFree (roundup r))"
  using find_free_list[OF assms, of M "roundup r"]
  by (simp add: mymalloc_exp_def Let_def split: placement.splits)

lemma roundup_wrap:
  assumes "r > 0xFFFFFFFFFFFFFFF8"
  shows "roundup r = 0"
proof -
  from assms have lo: "unat r > 0xFFFFFFFFFFFFFFF8"
    by (simp add: word_less_nat_alt)
  have "unat r < 2 ^ LENGTH(64)"
    by (rule unsigned_less)
  with lo have "unat r = 0xFFFFFFFFFFFFFFF9 \<or> unat r = 0xFFFFFFFFFFFFFFFA \<or>
      unat r = 0xFFFFFFFFFFFFFFFB \<or> unat r = 0xFFFFFFFFFFFFFFFC \<or> unat r = 0xFFFFFFFFFFFFFFFD \<or>
      unat r = 0xFFFFFFFFFFFFFFFE \<or> unat r = 0xFFFFFFFFFFFFFFFF"
    by simp arith
  moreover have "r = of_nat (unat r)"
    by simp
  ultimately have "r = 0xFFFFFFFFFFFFFFF9 \<or> r = 0xFFFFFFFFFFFFFFFA \<or>
      r = 0xFFFFFFFFFFFFFFFB \<or> r = 0xFFFFFFFFFFFFFFFC \<or> r = 0xFFFFFFFFFFFFFFFD \<or>
      r = 0xFFFFFFFFFFFFFFFE \<or> r = 0xFFFFFFFFFFFFFFFF"
    by (metis of_nat_numeral)
  then show ?thesis
    by (auto simp: roundup_def)
qed

lemma find_free_flag:
  "List.find (\<lambda>b. m b AND 1 = 0) bs = Some b \<Longrightarrow> first_fit M 0 m bs = Hit b"
  by (induction bs) (auto simp: first_fit_simps fits_def split: if_splits)

lemma place_imp_zero_header:
  "mem (fst (place_imp s b 0)) b = (if 16 \<le> mem s b then 0 else mem s b) XOR 1"
  by (simp add: place_imp_def splitFunc_imp_def Let_def split_beta)

lemma place_exp_zero_header:
  "mem s b AND 1 = 0 \<Longrightarrow>
   mem (fst (place_exp s b 0)) b = (if 24 < mem s b then 0 else mem s b) XOR 1"
  using place_exp_header[of s b 0] by (simp add: roundup_0)

section \<open>The concrete runs, evaluated\<close>

lemmas run_defs = blank_imp_def blank_exp_def max_req_def myinit_imp_def myinit_exp_def
  place_imp_def place_exp_def splitFunc_imp_def splitFunc_exp_def cantSplit_def
  myfree_imp_def myfree_exp_def load_hdr_def store_hdr_def roundup_def memmove_def Let_def

lemma max_req_bounds:
  "\<not> max_req < 8" "\<not> max_req < 16" "\<not> max_req < 64" "\<not> max_req < 4080" "\<not> max_req < 4088"
  "8 \<le> max_req" "16 \<le> max_req" "64 \<le> max_req" "4080 \<le> max_req" "4088 \<le> max_req"
  by (simp_all add: max_req_def)

lemma roundup_vals:
  "roundup 8 = 8" "roundup 16 = 16" "roundup 64 = 64" "roundup 4080 = 4080" "roundup 4088 = 4088"
  by (simp_all add: roundup_def)

lemma e0_fields:
  "heapStart e0 = 0x1000" "heapSize e0 = 4096" "sizeUsed e0 = 0" "freeSpace e0 = 4096"
  "freeEnd e0 = 0x1000" "mem e0 0x1000 = 4080" "mem e0 0x1008 = 0" "mem e0 0x1010 = 0"
  by (simp_all add: e0_def run_defs)

lemma e1_fields:
  "heapStart e1 = 0x1000" "heapSize e1 = 4096" "sizeUsed e1 = 32" "freeSpace e1 = 4064"
  "freeEnd e1 = 0x1020" "mem e1 0x1000 = 17" "mem e1 0x1020 = 4048" "mem e1 0x1028 = 0"
  "mem e1 0x1030 = 0"
  by (simp_all add: e1_def e0_def run_defs)

lemma e2_fields:
  "heapStart e2 = 0x1000" "heapSize e2 = 4096" "sizeUsed e2 = 64" "freeSpace e2 = 4032"
  "freeEnd e2 = 0x1040" "mem e2 0x1000 = 17" "mem e2 0x1020 = 17" "mem e2 0x1040 = 4016"
  "mem e2 0x1048 = 0" "mem e2 0x1050 = 0"
  by (simp_all add: e2_def e1_def e0_def run_defs)

lemma e3_fields:
  "heapStart e3 = 0x1000" "heapSize e3 = 4096" "sizeUsed e3 = 32" "freeSpace e3 = 4064"
  "freeEnd e3 = 0x1040" "mem e3 0x1000 = 17" "mem e3 0x1020 = 17" "mem e3 0x1040 = 4016"
  "mem e3 0x1048 = 0" "mem e3 0x1050 = 0"
  by (simp_all add: e3_def e2_def e1_def e0_def run_defs)

lemma e4_fields:
  "heapSize e4 = 4096" "sizeUsed e4 = 112" "freeSpace e4 = 3984"
  by (simp_all add: e4_def e2_def e1_def e0_def run_defs)

lemma e_full_fields:
  "heapStart e_full = 0x1000" "heapSize e_full = 4096" "sizeUsed e_full = 4096"
  "freeSpace e_full = 0" "freeEnd e_full = 0" "mem e_full 0x1000 = 4081"
  by (simp_all add: e_full_def e0_def run_defs)

lemma e0_find16: "find_free max_req (mem e0) 16 4096 0x1000 = Some (Hit 0x1000)"
  by (simp add: find_free.simps e0_fields max_req_bounds load_hdr_def Let_def)

lemma e_reach:
  "mymalloc_exp max_req e0 16 = Some (e1, 0x1010)"
  "mymalloc_exp max_req e1 16 = Some (e2, 0x1030)"
  "mymalloc_exp max_req e0 4080 = Some (e_full, 0x1010)"
  by (simp_all add: mymalloc_exp_def find_free.simps e0_fields e1_fields load_hdr_def
        roundup_vals max_req_bounds Let_def prod_eq_iff snd_place_exp
        e1_def [symmetric] e2_def [symmetric] e_full_def [symmetric])

lemma e4_reach: "myrealloc_exp max_req e2 0x1010 64 = Some (e4, 0x1050)"
  by (simp add: myrealloc_exp_def find_free.simps e2_fields load_hdr_def roundup_vals
        max_req_bounds Let_def split_beta snd_place_exp e4_def [symmetric])

lemma e3_walk: "walk_exp (mem e3) 0x1040 0 = Some (Some 4032)"
  by (simp add: walk_exp.simps e3_fields load_hdr_def Let_def)

lemma i0_fields:
  "heapStart i0 = 0x1000" "heapSize i0 = 4096" "sizeUsed i0 = 0" "mem i0 0x1000 = 4088"
  by (simp_all add: i0_def run_defs)

lemma i1_fields:
  "heapStart i1 = 0x1000" "heapSize i1 = 4096" "sizeUsed i1 = 24" "mem i1 0x1000 = 17"
  "mem i1 0x1018 = 4064"
  by (simp_all add: i1_def i0_def run_defs)

lemma i_reach:
  "mymalloc_imp max_req i0 16 = Some (i1, 0x1008)"
  "mymalloc_imp max_req i0 4088 = Some (i_full, 0x1008)"
  by (simp_all add: mymalloc_imp_def scan_imp.simps i0_fields roundup_vals max_req_bounds Let_def
        prod_eq_iff snd_place_imp i1_def [symmetric] i_full_def [symmetric])

lemma k0_fields:
  "heapStart k0 = 0x1000" "heapSize k0 = 64" "sizeUsed k0 = 0" "mem k0 0x1000 = 56"
  by (simp_all add: k0_def run_defs)

lemma k1_fields:
  "heapStart k1 = 0x1000" "heapSize k1 = 64" "sizeUsed k1 = 40" "mem k1 0x1000 = 33"
  "mem k1 0x1028 = 16"
  by (simp_all add: k1_def k0_def run_defs)

lemma k_reach: "mymalloc_imp max_req k0 32 = Some (k1, 0x1008)"
  by (simp add: mymalloc_imp_def scan_imp.simps k0_fields roundup_def max_req_def Let_def
        prod_eq_iff snd_place_imp k1_def [symmetric])

lemma k1_scan24: "scan_imp max_req k1 24 0 = Some Miss"
  by (simp add: scan_imp.simps k1_fields max_req_def Let_def)

lemma i1_scan16: "scan_imp max_req i1 16 0 = Some (Hit 0x1018)"
  by (simp add: scan_imp.simps i1_fields max_req_bounds Let_def)

lemma i1_scan8: "scan_imp max_req i1 8 0 = Some (Hit 0x1018)"
  by (simp add: scan_imp.simps i1_fields max_req_bounds Let_def)

lemma j1_fields:
  "heapStart j1 = 0x1000" "heapSize j1 = 4096" "sizeUsed j1 = 16" "mem j1 0x1000 = 9"
  "mem j1 0x1010 = 4072"
  by (simp_all add: j1_def i0_def run_defs)

lemma j2_fields:
  "heapStart j2 = 0x1000" "heapSize j2 = 4096" "sizeUsed j2 = 32" "mem j2 0x1000 = 9"
  "mem j2 0x1010 = 9" "mem j2 0x1020 = 4056"
  by (simp_all add: j2_def j1_def i0_def run_defs)

lemma j3_fields:
  "heapStart j3 = 0x1000" "heapSize j3 = 4096" "sizeUsed j3 = 16" "mem j3 0x1000 = 8"
  "mem j3 0x1010 = 9" "mem j3 0x1020 = 4056"
  by (simp_all add: j3_def j2_def j1_def i0_def run_defs)

lemma j4_fields:
  "heapStart j4 = 0x1000" "heapSize j4 = 4096" "sizeUsed j4 = 32" "mem j4 0x1000 = 9"
  "mem j4 0x1010 = 9" "mem j4 0x1020 = 4056"
  by (simp_all add: j4_def j3_def j2_def j1_def i0_def run_defs)

lemma j_reach:
  "mymalloc_imp max_req i0 8 = Some (j1, 0x1008)"
  "mymalloc_imp max_req j1 8 = Some (j2, 0x1018)"
  "mymalloc_imp max_req j3 0xFFFFFFFFFFFFFFFF = Some (j4, 0x1008)"
  by (simp_all add: mymalloc_imp_def scan_imp.simps i0_fields j1_fields j3_fields roundup_vals
        roundup_wrap max_req_bounds Let_def prod_eq_iff snd_place_imp
        j1_def [symmetric] j2_def [symmetric] j4_def [symmetric])

lemma tiled_runs:
  "tiled i0 0 [0x1000]" "tiled i1 0 [0x1000, 0x1018]" "tiled j3 0 [0x1000, 0x1010, 0x1020]"
  by (simp_all add: i0_fields i1_fields j3_fields block_payload_def)

lemma region_ok_runs:
  "region_ok i0" "region_ok i1" "region_ok j3" "region_ok e0" "region_ok e1"
  by (simp_all add: region_ok_def i0_fields i1_fields j3_fields e0_fields e1_fields)

lemma free_list_runs:
  "free_list (mem e0) (freeEnd e0) [0x1000]" "list_bytes (mem e0) [0x1000] \<le> unat (freeSpace e0)"
  "list_all (in_region e0) [0x1000]"
  "free_list (mem e1) (freeEnd e1) [0x1020]" "list_bytes (mem e1) [0x1020] \<le> unat (freeSpace e1)"
  "list_all (in_region e1) [0x1020]"
  by (simp_all add: e0_fields e1_fields list_bytes_def in_region_def)

section \<open>The claims\<close>

text \<open>
  C1 (amended).  The claim puts the explicit header width at 24 bytes.  The header struct
  has three machine words, but the payload offset the explicit allocator uses throughout is
  16 bytes: after a successful \<open>myinit\<close> the free list head is the region base and the
  single free block there has payload size \<open>heap_size - 16\<close> and null links; and every
  non-null pointer returned by \<open>mymalloc\<close> is the address of the block selected by the
  free-list search plus 16.
\<close>

theorem explicit_header_offset_16:
  "(heap_start \<noteq> 0 \<longrightarrow>
      snd (myinit_exp s0 heap_start heap_size) \<and>
      freeEnd (fst (myinit_exp s0 heap_start heap_size)) = heap_start \<and>
      load_hdr (mem (fst (myinit_exp s0 heap_start heap_size))) heap_start =
        \<lparr>hdr_h = heap_size - 16, hdr_prev = 0, hdr_next = 0\<rparr>) \<and>
   (mymalloc_exp M s r = Some (s', p) \<and> p \<noteq> 0 \<longrightarrow>
      find_free M (mem s) (roundup r) (freeSpace s) (freeEnd s) = Some (Hit (p - 16)))"
proof (intro conjI impI)
  assume "mymalloc_exp M s r = Some (s', p) \<and> p \<noteq> 0"
  then show "find_free M (mem s) (roundup r) (freeSpace s) (freeEnd s) = Some (Hit (p - 16))"
    using mymalloc_exp_cases[of M s r s' p] by auto
qed (simp_all add: myinit_exp_def load_hdr_def store_hdr_def)

theorem explicit_header_offset_16_witness:
  "(0x1000 :: addr) \<noteq> 0 \<and>
   snd (myinit_exp blank_exp 0x1000 4096) \<and>
   load_hdr (mem e0) 0x1000 = \<lparr>hdr_h = 4080, hdr_prev = 0, hdr_next = 0\<rparr> \<and>
   mymalloc_exp max_req e0 16 = Some (e1, 0x1010) \<and>
   find_free max_req (mem e0) (roundup 16) (freeSpace e0) (freeEnd e0) = Some (Hit 0x1000)"
  using explicit_header_offset_16 [of "0x1000" blank_exp 4096 max_req e0 16 e1 "0x1010"]
  by (simp add: e_reach e0_def [symmetric] e0_fields)

text \<open>
  C1 as stated fails: in a 4096-byte region the initial free block has payload 4080, not
  \<open>4096 - 24\<close>, and \<open>mymalloc(16)\<close> selects the block at \<open>0x1000\<close> and returns
  \<open>0x1010\<close>, not \<open>0x1000 + 24\<close>.
\<close>

theorem explicit_header_24_counterexample:
  "snd (myinit_exp blank_exp 0x1000 4096) \<and>
   hdr_h (load_hdr (mem (fst (myinit_exp blank_exp 0x1000 4096))) 0x1000) \<noteq> 4096 - 24 \<and>
   find_free max_req (mem e0) (roundup 16) (freeSpace e0) (freeEnd e0) = Some (Hit 0x1000) \<and>
   map_option snd (mymalloc_exp max_req e0 16) = Some 0x1010 \<and>
   (0x1010 :: addr) \<noteq> 0x1000 + 24"
  by (simp add: e_reach e0_find16 roundup_vals e0_def [symmetric] e0_fields load_hdr_def)
     (simp add: myinit_exp_def)

text \<open>
  C2 (the code departs from the claim).  Run: \<open>myinit(0x1000, 4096)\<close>,
  \<open>A = mymalloc(16)\<close>, \<open>B = mymalloc(16)\<close>, \<open>myfree(A)\<close>.  The right neighbour of
  \<open>A\<close> is \<open>B\<close>, inside the region and allocated.  \<open>myfree\<close> changes the two counters
  and nothing else: the header of \<open>A\<close> keeps its allocated flag, memory is untouched and
  the free-list head stays at the old head \<open>0x1040\<close>; the block is not inserted.
\<close>

theorem myfree_exp_allocated_neighbour_not_inserted:
  "mymalloc_exp max_req e0 16 = Some (e1, 0x1010) \<and>
   mymalloc_exp max_req e1 16 = Some (e2, 0x1030) \<and>
   0x1010 + (mem e2 (0x1010 - 16) XOR 1) < heapStart e2 + heapSize e2 \<and>
   mem e2 (0x1010 + (mem e2 (0x1010 - 16) XOR 1)) AND 1 = 1 \<and>
   myfree_exp e2 0x1010 = e2\<lparr>sizeUsed := 32, freeSpace := 4064\<rparr> \<and>
   mem (myfree_exp e2 0x1010) (0x1010 - 16) AND 1 = 1 \<and>
   freeEnd e2 = 0x1040 \<and>
   freeEnd (myfree_exp e2 0x1010) = 0x1040"
  by (simp add: e_reach e2_fields myfree_exp_def load_hdr_def Let_def)

text \<open>
  C3 (the code departs from the claim).  \<open>validate_heap\<close> does return \<open>false\<close> at a list
  node whose allocated flag is set, but the total \<open>freed\<close> of the list walk is never
  compared with \<open>freeSpace\<close>.  In the state after the run of C2 the walk adds up to 4032,
  \<open>freeSpace\<close> is 4064, and \<open>validate_heap\<close> returns \<open>true\<close>.
\<close>

theorem validate_heap_exp_ignores_list_total:
  "walk_exp (mem e3) (freeEnd e3) 0 = Some (Some 4032) \<and>
   freeSpace e3 = 4064 \<and>
   validate_heap_exp e3 = Some True"
  by (simp add: e3_walk e3_fields validate_heap_exp_def sweep_exp.simps load_hdr_def Let_def)

text \<open>
  The explicit \<open>myrealloc\<close> does return \<open>old_ptr\<close>, with the state unchanged, whenever
  the rounded request passes the size checks and the block's payload is at least the
  rounded request.
\<close>

lemma myrealloc_exp_in_place:
  assumes "old_ptr \<noteq> 0" "new_size \<noteq> 0" "roundup new_size \<le> M"
    and "roundup new_size + sizeUsed t \<le> heapSize t"
    and "roundup new_size \<le> (mem t (old_ptr - 16) XOR 1)"
  shows "myrealloc_exp M t old_ptr new_size = Some (t, old_ptr)"
  using assms
  by (simp add: myrealloc_exp_def load_hdr_def Let_def not_less [symmetric])

text \<open>
  C4 (the code departs from the claim).  The implicit \<open>myrealloc\<close> makes its in-place
  test only inside the scan, at a free block that fits, and there compares
  \<open>old_payload > new_size\<close> (strict, unrounded).  Two runs, in both of which the request
  passes the size checks and the block's payload satisfies the rounded request:
  \<^item> after \<open>myinit(0x1000, 4096)\<close> and \<open>mymalloc(16)\<close>, \<open>myrealloc(0x1008, 16)\<close> moves
    the block: it returns \<open>0x1020\<close>, the old header becomes 16 (free) and the new header
    at \<open>0x1018\<close> becomes 17;
  \<^item> after \<open>myinit(0x1000, 64)\<close> and \<open>mymalloc(32)\<close>, the shrinking call
    \<open>myrealloc(0x1008, 24)\<close> returns null, since the only free block has payload 16.
  The explicit \<open>myrealloc\<close>, on the request of the first run (payload 16, new size 16),
  returns the old pointer and leaves the state unchanged.
\<close>

theorem myrealloc_imp_sufficient_block_not_kept:
  "mymalloc_imp max_req i0 16 = Some (i1, 0x1008) \<and>
   roundup 16 \<le> max_req \<and> roundup 16 + sizeUsed i1 \<le> heapSize i1 \<and>
   roundup 16 \<le> (mem i1 (0x1008 - 8) XOR 1) \<and>
   map_option snd (myrealloc_imp max_req i1 0x1008 16) = Some 0x1020 \<and>
   map_option (\<lambda>(s, p). (mem s 0x1000, mem s 0x1018)) (myrealloc_imp max_req i1 0x1008 16)
     = Some (16, 17) \<and>
   mymalloc_imp max_req k0 32 = Some (k1, 0x1008) \<and>
   roundup 24 \<le> max_req \<and> roundup 24 + sizeUsed k1 \<le> heapSize k1 \<and>
   roundup 24 \<le> (mem k1 (0x1008 - 8) XOR 1) \<and>
   myrealloc_imp max_req k1 0x1008 24 = Some (k1, 0) \<and>
   mymalloc_exp max_req e0 16 = Some (e1, 0x1010) \<and>
   roundup 16 \<le> (mem e1 (0x1010 - 16) XOR 1) \<and>
   myrealloc_exp max_req e1 0x1010 16 = Some (e1, 0x1010)"
proof -
  have r24: "roundup 24 = 24" "\<not> max_req < 24" "24 \<le> max_req"
    by (simp_all add: roundup_def max_req_def)
  have imp1: "map_option snd (myrealloc_imp max_req i1 0x1008 16) = Some 0x1020"
    "map_option (\<lambda>(s, p). (mem s 0x1000, mem s 0x1018)) (myrealloc_imp max_req i1 0x1008 16)
       = Some (16, 17)"
    by (simp_all add: myrealloc_imp_def i1_scan16 i1_fields roundup_vals max_req_bounds
          move_imp_def splitFunc_imp_def memmove_def Let_def split_beta)
  have imp2: "myrealloc_imp max_req k1 0x1008 24 = Some (k1, 0)"
    by (simp add: myrealloc_imp_def k1_scan24 k1_fields r24)
  have exp: "myrealloc_exp max_req e1 0x1010 16 = Some (e1, 0x1010)"
    by (simp add: myrealloc_exp_in_place e1_fields roundup_vals max_req_bounds)
  show ?thesis
    by (simp add: imp1 imp2 exp i_reach k_reach e_reach i1_fields k1_fields e1_fields
          roundup_vals r24 max_req_bounds)
qed

text \<open>
  C5.  On a well-formed heap \<open>mymalloc(r)\<close> returns, and it returns null exactly when
  \<open>r = 0\<close>, or \<open>roundup r > MAX_REQUEST_SIZE\<close>, or \<open>roundup r + sizeUsed > heapSize\<close>
  (in \<open>size_t\<close> arithmetic, as the code compares), or no free block has a payload of at
  least \<open>roundup r\<close>; and when it returns null the state is unchanged.  Well-formed means,
  for the implicit variant, that the blocks \<open>bs\<close> tile the region from offset 0 to
  \<open>heapSize\<close>; for the explicit variant, that the \<open>next\<close> links from \<open>freeEnd\<close> run
  through the nodes \<open>xs\<close> to null, that these nodes lie in the region and that their total
  size does not exceed \<open>freeSpace\<close>; and in both that the region ends below the top of
  the address space.  A free block is one whose header has the status bit clear; in the
  explicit variant the free blocks are the nodes of the free list.
\<close>

theorem mymalloc_null_iff:
  "(tiled s 0 bs \<and> region_ok s \<longrightarrow>
      (\<exists>s' p. mymalloc_imp M s r = Some (s', p) \<and>
         (p = 0 \<longleftrightarrow> r = 0 \<or> roundup r > M \<or> roundup r + sizeUsed s > heapSize s \<or>
                    \<not> (\<exists>b \<in> set bs. mem s b AND 1 = 0 \<and> roundup r \<le> mem s b)) \<and>
         (p = 0 \<longrightarrow> s' = s))) \<and>
   (free_list (mem t) (freeEnd t) xs \<and> list_bytes (mem t) xs \<le> unat (freeSpace t) \<and>
    list_all (in_region t) xs \<and> region_ok t \<longrightarrow>
      (\<exists>t' q. mymalloc_exp M' t r' = Some (t', q) \<and>
         (q = 0 \<longleftrightarrow> r' = 0 \<or> roundup r' > M' \<or> roundup r' + sizeUsed t > heapSize t \<or>
                    \<not> (\<exists>x \<in> set xs. mem t x AND 1 = 0 \<and> roundup r' \<le> mem t x)) \<and>
         (q = 0 \<longrightarrow> t' = t)))"
proof (intro conjI impI)
  assume a: "tiled s 0 bs \<and> region_ok s"
  then have m: "mymalloc_imp M s r =
           Some (if r = 0 \<or> roundup r > M \<or> roundup r + sizeUsed s > heapSize s then (s, 0)
                 else case first_fit M (roundup r) (mem s) bs of
                        Miss \<Rightarrow> (s, 0)
                      | Hit header \<Rightarrow> place_imp s header (roundup r))"
    by (simp add: mymalloc_imp_tiled)
  show "\<exists>s' p. mymalloc_imp M s r = Some (s', p) \<and>
         (p = 0 \<longleftrightarrow> r = 0 \<or> roundup r > M \<or> roundup r + sizeUsed s > heapSize s \<or>
                    \<not> (\<exists>b \<in> set bs. mem s b AND 1 = 0 \<and> roundup r \<le> mem s b)) \<and>
         (p = 0 \<longrightarrow> s' = s)"
  proof (cases "r = 0 \<or> roundup r > M \<or> roundup r + sizeUsed s > heapSize s")
    case True
    with m show ?thesis by auto
  next
    case False
    then have rM: "roundup r \<le> M" by auto
    show ?thesis
    proof (cases rule: first_fit_cases[of M "roundup r" "mem s" bs])
      case 1
      with m False rM show ?thesis by (auto simp: fits_def)
    next
      case (2 b)
      from 2(2) a have "b + 8 \<noteq> 0" using tiled_payload_ptr_nonnull[of s bs b] by simp
      moreover have "place_imp s b (roundup r) = (fst (place_imp s b (roundup r)), b + 8)"
        by (simp add: prod_eq_iff snd_place_imp)
      ultimately show ?thesis
        using m False 2 by (auto simp: fits_def)
    qed
  qed
next
  assume a: "free_list (mem t) (freeEnd t) xs \<and> list_bytes (mem t) xs \<le> unat (freeSpace t) \<and>
    list_all (in_region t) xs \<and> region_ok t"
  then have m: "mymalloc_exp M' t r' =
           Some (if r' = 0 \<or> roundup r' > M' \<or> roundup r' + sizeUsed t > heapSize t then (t, 0)
                 else case first_fit M' (roundup r') (mem t) xs of
                        Miss \<Rightarrow> (t, 0)
                      | Hit currentFree \<Rightarrow> place_exp t currentFree (roundup r'))"
    by (simp add: mymalloc_exp_free_list)
  show "\<exists>t' q. mymalloc_exp M' t r' = Some (t', q) \<and>
         (q = 0 \<longleftrightarrow> r' = 0 \<or> roundup r' > M' \<or> roundup r' + sizeUsed t > heapSize t \<or>
                    \<not> (\<exists>x \<in> set xs. mem t x AND 1 = 0 \<and> roundup r' \<le> mem t x)) \<and>
         (q = 0 \<longrightarrow> t' = t)"
  proof (cases "r' = 0 \<or> roundup r' > M' \<or> roundup r' + sizeUsed t > heapSize t")
    case True
    with m show ?thesis by auto
  next
    case False
    then have rM: "roundup r' \<le> M'" by auto
    show ?thesis
    proof (cases rule: first_fit_cases[of M' "roundup r'" "mem t" xs])
      case 1
      with m False rM show ?thesis by (auto simp: fits_def)
    next
      case (2 x)
      from 2(2) a have "x + 16 \<noteq> 0"
        using in_region_payload_ptr_nonnull[of t x] by (simp add: list_all_iff)
      moreover have "place_exp t x (roundup r') = (fst (place_exp t x (roundup r')), x + 16)"
        by (simp add: prod_eq_iff snd_place_exp)
      ultimately show ?thesis
        using m False 2 by (auto simp: fits_def)
    qed
  qed
qed

theorem mymalloc_null_iff_witness:
  "tiled i1 0 [0x1000, 0x1018] \<and> region_ok i1 \<and>
   mymalloc_imp max_req i1 4072 = Some (i1, 0) \<and>
   free_list (mem e1) (freeEnd e1) [0x1020] \<and>
   list_bytes (mem e1) [0x1020] \<le> unat (freeSpace e1) \<and>
   list_all (in_region e1) [0x1020] \<and> region_ok e1 \<and>
   mymalloc_exp max_req e1 4056 = Some (e1, 0) \<and>
   map_option snd (mymalloc_exp max_req e1 16) \<noteq> Some 0"
proof -
  have r: "roundup 4072 = 4072" "roundup 4056 = 4056" "\<not> max_req < 4072" "\<not> max_req < 4056"
    by (simp_all add: roundup_def max_req_def)
  show ?thesis
    using mymalloc_null_iff [of i1 "[0x1000, 0x1018]" max_req 4072 e1 "[0x1020]" max_req 4056]
          mymalloc_null_iff [of i1 "[0x1000, 0x1018]" max_req 4072 e1 "[0x1020]" max_req 16]
    by (simp add: tiled_runs region_ok_runs free_list_runs r roundup_vals max_req_bounds
          block_payload_def list_bytes_def in_region_def
          i1_fields e1_fields) auto
qed

text \<open>
  C6.  In the explicit variant \<open>sizeUsed + freeSpace = heapSize\<close> (in \<open>size_t\<close>
  arithmetic, the comparison \<open>validate_heap\<close> makes) holds after a successful
  \<open>myinit\<close>, and every \<open>mymalloc\<close>, \<open>myfree\<close> and \<open>myrealloc\<close> call that starts in a
  state where it holds ends in a state where it holds.
\<close>

theorem counters_sum_to_heapSize:
  "(heap_start \<noteq> 0 \<longrightarrow> counters_ok (fst (myinit_exp s0 heap_start heap_size))) \<and>
   (counters_ok s \<and> mymalloc_exp M s r = Some (s', p) \<longrightarrow> counters_ok s') \<and>
   (counters_ok s \<longrightarrow> counters_ok (myfree_exp s ptr)) \<and>
   (counters_ok s \<and> myrealloc_exp M s old_ptr new_size = Some (s'', p') \<longrightarrow> counters_ok s'')"
  by (auto intro: counters_ok_init counters_ok_malloc counters_ok_free counters_ok_realloc)

theorem counters_sum_to_heapSize_witness:
  "counters_ok e0 \<and> counters_ok e1 \<and> counters_ok e2 \<and> counters_ok e3 \<and> counters_ok e4 \<and>
   sizeUsed e4 + freeSpace e4 = heapSize e4 \<and> sizeUsed e4 = 112 \<and> freeSpace e4 = 3984"
proof -
  have 0: "counters_ok e0"
    using counters_sum_to_heapSize [of "0x1000" blank_exp 4096] by (simp add: e0_def)
  have 1: "counters_ok e1"
    using 0 counters_sum_to_heapSize [of 0 blank_exp 0 e0 max_req 16 e1 "0x1010"]
    by (simp add: e_reach)
  have 2: "counters_ok e2"
    using 1 counters_sum_to_heapSize [of 0 blank_exp 0 e1 max_req 16 e2 "0x1030"]
    by (simp add: e_reach)
  have 3: "counters_ok e3"
    using 2 counters_sum_to_heapSize [of 0 blank_exp 0 e2 max_req 0 e2 0 "0x1010"]
    by (simp add: e3_def)
  have 4: "counters_ok e4"
    using 2 counters_sum_to_heapSize [of 0 blank_exp 0 e2 max_req 0 e2 0 0 "0x1010" 64 e4 "0x1050"]
    by (simp add: e4_reach)
  from 0 1 2 3 4 show ?thesis
    by (simp add: counters_ok_def e4_fields)
qed

text \<open>
  The zero-size branch of \<open>myrealloc\<close>, in both variants: the state is the one
  \<open>myfree(old_ptr)\<close> leaves, and the pointer returned is \<open>old_ptr\<close>.  In the implicit
  variant this frees an allocated block: its status bit is cleared and \<open>sizeUsed\<close> goes
  down by \<open>8 + payload\<close>.
\<close>

lemma myrealloc_zero_branch:
  "old_ptr \<noteq> 0 \<Longrightarrow>
     myrealloc_imp M s old_ptr 0 = Some (myfree_imp s old_ptr, old_ptr) \<and>
     myrealloc_exp M t old_ptr 0 = Some (myfree_exp t old_ptr, old_ptr)"
  by (simp add: myrealloc_imp_def myrealloc_exp_def)

lemma xor1_clears_flag: "h AND 1 = 1 \<Longrightarrow> (h XOR 1) AND 1 = (0 :: size_t)"
  by (simp add: bit.conj_xor_distrib2)

lemma myfree_imp_frees:
  assumes "old_ptr \<noteq> 0"
  shows "mem (myfree_imp s old_ptr) (old_ptr - 8) = mem s (old_ptr - 8) XOR 1"
    and "sizeUsed (myfree_imp s old_ptr) = sizeUsed s - ((mem s (old_ptr - 8) XOR 1) + 8)"
  using assms by (simp_all add: myfree_imp_def Let_def)

text \<open>
  C7 (the code departs from the claim).  Both variants return \<open>old_ptr\<close>, not null, and
  the implicit variant frees the block.  In the explicit variant the freeing is left to
  \<open>myfree\<close>, which leaks a block whose right neighbour lies inside the region and is
  allocated (the defect of C2).  Run: \<open>myinit(0x1000, 4096)\<close>, \<open>A = mymalloc(16)\<close>,
  \<open>B = mymalloc(16)\<close>, \<open>myrealloc(A, 0)\<close>.  The call returns \<open>A\<close>, but the header of \<open>A\<close>
  keeps its allocated flag, memory is untouched and the free-list head stays \<open>0x1040\<close>:
  the single list node is still \<open>0x1040\<close>, so \<open>A\<close> is not free; only the counters move.
  The same call in the implicit variant (\<open>myinit(0x1000, 4096)\<close>, \<open>a = mymalloc(16)\<close>,
  \<open>myrealloc(a, 0)\<close>) returns \<open>a\<close>, clears the flag in its header and brings \<open>sizeUsed\<close>
  back to 0.
\<close>

theorem myrealloc_exp_zero_does_not_free:
  "mymalloc_exp max_req e0 16 = Some (e1, 0x1010) \<and>
   mymalloc_exp max_req e1 16 = Some (e2, 0x1030) \<and>
   mem e2 (0x1010 - 16) AND 1 = 1 \<and>
   myrealloc_exp max_req e2 0x1010 0 = Some (e2\<lparr>sizeUsed := 32, freeSpace := 4064\<rparr>, 0x1010) \<and>
   mem (e2\<lparr>sizeUsed := 32, freeSpace := 4064\<rparr>) (0x1010 - 16) AND 1 = 1 \<and>
   freeEnd (e2\<lparr>sizeUsed := 32, freeSpace := 4064\<rparr>) = 0x1040 \<and>
   free_list (mem (e2\<lparr>sizeUsed := 32, freeSpace := 4064\<rparr>)) 0x1040 [0x1040] \<and>
   mymalloc_imp max_req i0 16 = Some (i1, 0x1008) \<and>
   mem i1 (0x1008 - 8) AND 1 = 1 \<and>
   map_option snd (myrealloc_imp max_req i1 0x1008 0) = Some 0x1008 \<and>
   map_option (\<lambda>(s, p). (mem s (0x1008 - 8), sizeUsed s)) (myrealloc_imp max_req i1 0x1008 0)
     = Some (16, 0)"
proof -
  have exp: "myrealloc_exp max_req e2 0x1010 0
               = Some (e2\<lparr>sizeUsed := 32, freeSpace := 4064\<rparr>, 0x1010)"
    by (simp add: myrealloc_exp_def myfree_exp_def e2_fields load_hdr_def Let_def)
  have imp: "map_option snd (myrealloc_imp max_req i1 0x1008 0) = Some 0x1008"
    "map_option (\<lambda>(s, p). (mem s (0x1008 - 8), sizeUsed s)) (myrealloc_imp max_req i1 0x1008 0)
       = Some (16, 0)"
    by (simp_all add: myrealloc_imp_def myfree_imp_def i1_fields Let_def)
  from exp imp show ?thesis
    by (simp add: e_reach i_reach e2_fields i1_fields)
qed

text \<open>
  C8.  In both variants, when \<open>mymalloc(r)\<close> returns a non-null pointer, \<open>myfree\<close> of that
  pointer in the resulting state brings \<open>sizeUsed\<close> back to its value before the
  \<open>mymalloc\<close>.  The statement covers the split and the no-split path alike; the witness
  runs both in each variant.
\<close>

theorem alloc_free_restores_used:
  "(mymalloc_imp M s r = Some (s', p) \<and> p \<noteq> 0 \<longrightarrow> sizeUsed (myfree_imp s' p) = sizeUsed s) \<and>
   (mymalloc_exp M' t r' = Some (t', q) \<and> q \<noteq> 0 \<longrightarrow> sizeUsed (myfree_exp t' q) = sizeUsed t)"
proof (intro conjI impI)
  assume a: "mymalloc_imp M s r = Some (s', p) \<and> p \<noteq> 0"
  then obtain header where "s' = fst (place_imp s header (roundup r))" "p = header + 8"
    using mymalloc_imp_cases[of M s r s' p] by auto
  with a show "sizeUsed (myfree_imp s' p) = sizeUsed s"
    by (simp add: place_imp_free_used)
next
  assume a: "mymalloc_exp M' t r' = Some (t', q) \<and> q \<noteq> 0"
  then obtain b where f: "find_free M' (mem t) (roundup r') (freeSpace t) (freeEnd t) = Some (Hit b)"
    and "t' = fst (place_exp t b (roundup r'))" "q = b + 16"
    using mymalloc_exp_cases[of M' t r' t' q] by auto
  with a find_free_Hit[OF f] show "sizeUsed (myfree_exp t' q) = sizeUsed t"
    by (simp add: place_exp_free_used)
qed

theorem alloc_free_restores_used_witness:
  "mymalloc_imp max_req i0 16 = Some (i1, 0x1008) \<and> sizeUsed i1 = 24 \<and>
     sizeUsed (myfree_imp i1 0x1008) = 0 \<and>
   mymalloc_imp max_req i0 4088 = Some (i_full, 0x1008) \<and> sizeUsed i_full = 4096 \<and>
     sizeUsed (myfree_imp i_full 0x1008) = 0 \<and>
   mymalloc_exp max_req e0 16 = Some (e1, 0x1010) \<and> sizeUsed e1 = 32 \<and>
     sizeUsed (myfree_exp e1 0x1010) = 0 \<and>
   mymalloc_exp max_req e0 4080 = Some (e_full, 0x1010) \<and> sizeUsed e_full = 4096 \<and>
     sizeUsed (myfree_exp e_full 0x1010) = 0"
  using alloc_free_restores_used [of max_req i0 16 i1 "0x1008" max_req e0 16 e1 "0x1010"]
        alloc_free_restores_used [of max_req i0 4088 i_full "0x1008" max_req e0 4080 e_full "0x1010"]
  by (simp add: i_reach e_reach i0_fields e0_fields i1_fields e1_fields e_full_fields)
     (simp add: i_full_def i0_def run_defs)

text \<open>
  C9 (amended).  For every request \<open>r > SIZE_MAX - 7\<close>, \<open>roundup r\<close> wraps to 0.  On a
  well-formed heap (as in C5) with \<open>sizeUsed \<le> heapSize\<close> and at least one free block,
  \<open>mymalloc(r)\<close> then passes both size checks and returns a non-null pointer, the
  payload address of the first free block \<open>b\<close>.  The block handed out has a zero-byte
  payload only when \<open>b\<close> is split, that is when its payload is at least 16 (implicit) or
  more than 24 (explicit); otherwise \<open>b\<close> is handed out whole and keeps its payload.
\<close>

theorem mymalloc_wrapped_request:
  "(r > 0xFFFFFFFFFFFFFFF8 \<longrightarrow> roundup r = 0) \<and>
   (r > 0xFFFFFFFFFFFFFFF8 \<and> sizeUsed s \<le> heapSize s \<and> tiled s 0 bs \<and> region_ok s \<and>
    List.find (\<lambda>b. mem s b AND 1 = 0) bs = Some b \<longrightarrow>
      b + 8 \<noteq> 0 \<and>
      (\<exists>s'. mymalloc_imp M s r = Some (s', b + 8) \<and>
            mem s' b = (if 16 \<le> mem s b then 0 else mem s b) XOR 1)) \<and>
   (r > 0xFFFFFFFFFFFFFFF8 \<and> sizeUsed t \<le> heapSize t \<and>
    free_list (mem t) (freeEnd t) xs \<and> list_bytes (mem t) xs \<le> unat (freeSpace t) \<and>
    list_all (in_region t) xs \<and> region_ok t \<and>
    List.find (\<lambda>x. mem t x AND 1 = 0) xs = Some x \<longrightarrow>
      x + 16 \<noteq> 0 \<and>
      (\<exists>t'. mymalloc_exp M' t r = Some (t', x + 16) \<and>
            mem t' x = (if 24 < mem t x then 0 else mem t x) XOR 1))"
proof (intro conjI impI)
  assume a: "r > 0xFFFFFFFFFFFFFFF8 \<and> sizeUsed s \<le> heapSize s \<and> tiled s 0 bs \<and> region_ok s \<and>
    List.find (\<lambda>b. mem s b AND 1 = 0) bs = Some b"
  then have r0: "roundup r = 0" "r \<noteq> 0"
    by (auto simp: roundup_wrap)
  from a have ff: "first_fit M 0 (mem s) bs = Hit b"
    by (simp add: find_free_flag)
  then have "b \<in> set bs"
    by (auto dest: first_fit_Hit)
  with a show "b + 8 \<noteq> 0"
    using tiled_payload_ptr_nonnull[of s bs b] by simp
  from a have t: "tiled s 0 bs" and su: "\<not> heapSize s < sizeUsed s"
    by (auto simp: not_less)
  have "mymalloc_imp M s r = Some (place_imp s b 0)"
    using su r0 ff by (simp add: mymalloc_imp_tiled [OF t])
  then have "mymalloc_imp M s r = Some (fst (place_imp s b 0), b + 8)"
    by (simp add: prod_eq_iff snd_place_imp)
  then show "\<exists>s'. mymalloc_imp M s r = Some (s', b + 8) \<and>
            mem s' b = (if 16 \<le> mem s b then 0 else mem s b) XOR 1"
    using place_imp_zero_header[of s b] by blast
next
  assume a: "r > 0xFFFFFFFFFFFFFFF8 \<and> sizeUsed t \<le> heapSize t \<and>
    free_list (mem t) (freeEnd t) xs \<and> list_bytes (mem t) xs \<le> unat (freeSpace t) \<and>
    list_all (in_region t) xs \<and> region_ok t \<and>
    List.find (\<lambda>x. mem t x AND 1 = 0) xs = Some x"
  then have r0: "roundup r = 0" "r \<noteq> 0"
    by (auto simp: roundup_wrap)
  from a have ff: "first_fit M' 0 (mem t) xs = Hit x"
    by (simp add: find_free_flag)
  then have x: "x \<in> set xs" "mem t x AND 1 = 0"
    by (auto dest: first_fit_Hit simp: fits_def)
  with a show "x + 16 \<noteq> 0"
    using in_region_payload_ptr_nonnull[of t x] by (simp add: list_all_iff)
  from a have fl: "free_list (mem t) (freeEnd t) xs" "list_bytes (mem t) xs \<le> unat (freeSpace t)"
    and su: "\<not> heapSize t < sizeUsed t"
    by (auto simp: not_less)
  have "mymalloc_exp M' t r = Some (place_exp t x 0)"
    using su r0 ff by (simp add: mymalloc_exp_free_list [OF fl])
  then have "mymalloc_exp M' t r = Some (fst (place_exp t x 0), x + 16)"
    by (simp add: prod_eq_iff snd_place_exp)
  then show "\<exists>t'. mymalloc_exp M' t r = Some (t', x + 16) \<and>
            mem t' x = (if 24 < mem t x then 0 else mem t x) XOR 1"
    using place_exp_zero_header[OF x(2)] by blast
qed (simp add: roundup_wrap)

theorem mymalloc_wrapped_request_witness:
  "(0xFFFFFFFFFFFFFFFF :: size_t) > 0xFFFFFFFFFFFFFFF8 \<and>
   roundup 0xFFFFFFFFFFFFFFFF = 0 \<and>
   tiled i0 0 [0x1000] \<and> region_ok i0 \<and>
   map_option snd (mymalloc_imp max_req i0 0xFFFFFFFFFFFFFFFF) = Some 0x1008 \<and>
   map_option (\<lambda>(s, p). mem s 0x1000) (mymalloc_imp max_req i0 0xFFFFFFFFFFFFFFFF) = Some 1 \<and>
   tiled j3 0 [0x1000, 0x1010, 0x1020] \<and> region_ok j3 \<and>
   map_option snd (mymalloc_imp max_req j3 0xFFFFFFFFFFFFFFFF) = Some 0x1008 \<and>
   map_option (\<lambda>(s, p). mem s 0x1000) (mymalloc_imp max_req j3 0xFFFFFFFFFFFFFFFF) = Some 9 \<and>
   free_list (mem e0) (freeEnd e0) [0x1000] \<and>
   map_option snd (mymalloc_exp max_req e0 0xFFFFFFFFFFFFFFFF) = Some 0x1010 \<and>
   map_option (\<lambda>(s, p). mem s 0x1000) (mymalloc_exp max_req e0 0xFFFFFFFFFFFFFFFF) = Some 1"
  using mymalloc_wrapped_request [of "0xFFFFFFFFFFFFFFFF" i0 "[0x1000]" "0x1000" max_req
                                     e0 "[0x1000]" "0x1000" max_req]
        mymalloc_wrapped_request [of "0xFFFFFFFFFFFFFFFF" j3 "[0x1000, 0x1010, 0x1020]" "0x1000" max_req
                                     e0 "[0x1000]" "0x1000" max_req]
  by (simp add: tiled_runs region_ok_runs free_list_runs i0_fields j3_fields e0_fields
        block_payload_def list_bytes_def in_region_def) auto

text \<open>
  C9 as stated fails where the first free block is too small to split.  Implicit run:
  \<open>a = mymalloc(8)\<close>, \<open>b = mymalloc(8)\<close>, \<open>myfree(a)\<close>, \<open>mymalloc(SIZE_MAX)\<close>.  The last
  call returns \<open>a\<close> again, and the block's header is 9: an allocated block with an 8-byte
  payload, not a zero-byte one.
\<close>

theorem mymalloc_wrapped_request_counterexample:
  "mymalloc_imp max_req i0 8 = Some (j1, 0x1008) \<and>
   mymalloc_imp max_req j1 8 = Some (j2, 0x1018) \<and>
   mem (myfree_imp j2 0x1008) 0x1000 = 8 \<and>
   (0xFFFFFFFFFFFFFFFF :: size_t) > 0xFFFFFFFFFFFFFFF8 \<and>
   mymalloc_imp max_req (myfree_imp j2 0x1008) 0xFFFFFFFFFFFFFFFF = Some (j4, 0x1008) \<and>
   mem j4 (0x1008 - 8) = 9 \<and>
   block_payload (mem j4 (0x1008 - 8)) = 8"
  by (simp add: j_reach j3_def [symmetric] j3_fields j4_fields block_payload_def)

text \<open>
  C10.  In both variants \<open>myrealloc(NULL, 0)\<close> returns null and leaves the state
  unchanged: the zero-size case needs a non-null \<open>old_ptr\<close>, and both later exits (the size
  check, and \<open>mymalloc(0)\<close>) return null.
\<close>

theorem realloc_null_zero:
  "myrealloc_imp M s 0 0 = Some (s, 0) \<and> myrealloc_exp M t 0 0 = Some (t, 0)"
  by (simp add: myrealloc_imp_def myrealloc_exp_def roundup_0 mymalloc_imp_def mymalloc_exp_def)

end
